theory Spec2Isabelle
  imports Complex_Main "HOL-Library.Sublist"
begin

section \<open>Data model\<close>

text \<open>
  A transcript segment is the dictionary \<^verbatim>\<open>{"start": ..., "duration": ..., "text": ...}\<close>
  of the three scripts. Seconds are Python floats; they are modelled as real numbers
  (rounding of binary floating point is not modelled). A Python \<^verbatim>\<open>str\<close> is modelled as
  a \<^typ>\<open>string\<close> holding its UTF-8 bytes.
\<close>

record segment =
  start :: real
  duration :: real
  "text" :: string

datatype py_error = ValueError

section \<open>Window planner: \<^verbatim>\<open>chunk_segments\<close> (edit-transcript.py, translate.py)\<close>

text \<open>
  \<^verbatim>\<open>for i in range(0, len(segments), max_segments): chunks.append(segments[i : i + max_segments])\<close>
  The loop variable runs over \<open>0, max_segments, 2 * max_segments, ...\<close> while it is below
  \<open>len(segments)\<close>. (A zero step never reaches the loop: \<^verbatim>\<open>range\<close> raises first, see
  \<open>chunk_segments\<close> below.)
\<close>

function chunk_loop :: "'a list \<Rightarrow> nat \<Rightarrow> nat \<Rightarrow> 'a list list" where
  "chunk_loop segments max_segments i =
     (if max_segments = 0 \<or> length segments \<le> i then []
      else take max_segments (drop i segments) # chunk_loop segments max_segments (i + max_segments))"
  by pat_completeness auto
termination
  by (relation "measure (\<lambda>(segments, max_segments, i). length segments - i)") auto

declare chunk_loop.simps [simp del]

text \<open>
  \<^verbatim>\<open>range\<close> raises \<^verbatim>\<open>ValueError\<close> for a zero step and is empty for a negative step
  (the stop value \<open>len(segments)\<close> is never negative).
\<close>

definition chunk_segments :: "'a list \<Rightarrow> int \<Rightarrow> py_error + 'a list list" where
  "chunk_segments segments max_segments =
     (if max_segments = 0 then Inl ValueError
      else if max_segments < 0 then Inr []
      else Inr (chunk_loop segments (nat max_segments) 0))"

section \<open>String operations of the Python library\<close>

text \<open>\<^verbatim>\<open>sep.join(xs)\<close>\<close>

fun join :: "string \<Rightarrow> string list \<Rightarrow> string" where
  "join sep [] = []"
| "join sep [x] = x"
| "join sep (x # y # ys) = x @ sep @ join sep (y # ys)"

text \<open>
  \<^verbatim>\<open>s.split(c)\<close> for a one-character separator: the pieces between the separators; the
  result is never empty (\<^verbatim>\<open>"".split("\n") == [""]\<close>).
\<close>

fun split_on :: "char \<Rightarrow> string \<Rightarrow> string list" where
  "split_on sep [] = [[]]"
| "split_on sep (c # cs) =
     (if c = sep then [] # split_on sep cs
      else (case split_on sep cs of
              [] \<Rightarrow> [[c]]
            | l # ls \<Rightarrow> (c # l) # ls))"

text \<open>\<^verbatim>\<open>s.split(c, 1)\<close>: split at the first separator only.\<close>

fun split_once :: "char \<Rightarrow> string \<Rightarrow> string list" where
  "split_once sep [] = [[]]"
| "split_once sep (c # cs) =
     (if c = sep then [[], cs]
      else (case split_once sep cs of
              [] \<Rightarrow> [[c]]
            | l # ls \<Rightarrow> (c # l) # ls))"

text \<open>
  \<^verbatim>\<open>s.find(pat)\<close>: the least index at which \<open>pat\<close> occurs in \<open>s\<close>, if any.
  \<^verbatim>\<open>pat in s\<close> is \<open>find_sub pat s \<noteq> None\<close> and \<^verbatim>\<open>s.index(pat)\<close> is the index found
  (it raises where there is none).
\<close>

fun find_sub :: "string \<Rightarrow> string \<Rightarrow> nat option" where
  "find_sub pat [] = (if pat = [] then Some 0 else None)"
| "find_sub pat (c # cs) =
     (if prefix pat (c # cs) then Some 0 else map_option Suc (find_sub pat cs))"

definition contains :: "string \<Rightarrow> string \<Rightarrow> bool" where
  "contains pat s = (find_sub pat s \<noteq> None)"

text \<open>
  \<^verbatim>\<open>c.isspace()\<close> on the ASCII range: tab, line feed, vertical tab, form feed, carriage
  return, the four separators \<open>0x1C\<close> to \<open>0x1F\<close>, and space. (White space beyond ASCII is
  not modelled.)
\<close>

definition isspace :: "char \<Rightarrow> bool" where
  "isspace c = (c \<in> set [CHR 0x09, CHR 0x0A, CHR 0x0B, CHR 0x0C, CHR 0x0D,
                           CHR 0x1C, CHR 0x1D, CHR 0x1E, CHR 0x1F, CHR 0x20])"

text \<open>\<^verbatim>\<open>s.strip()\<close>\<close>

definition strip :: "string \<Rightarrow> string" where
  "strip s = rev (dropWhile isspace (rev (dropWhile isspace s)))"

text \<open>\<^verbatim>\<open>str(n)\<close> for an integer, and the format specification \<^verbatim>\<open>{n:02d}\<close>.\<close>

definition digit_char :: "nat \<Rightarrow> char" where
  "digit_char d = ''0123456789'' ! (d mod 10)"

fun str_nat :: "nat \<Rightarrow> string" where
  "str_nat n = (if n < 10 then [digit_char n] else str_nat (n div 10) @ [digit_char (n mod 10)])"

declare str_nat.simps [simp del]

definition str_int :: "int \<Rightarrow> string" where
  "str_int i = (if i < 0 then ''-'' @ str_nat (nat (- i)) else str_nat (nat i))"

definition fmt_02d :: "int \<Rightarrow> string" where
  "fmt_02d i = (if i < 0 then ''-'' @ replicate (1 - length (str_nat (nat (- i)))) CHR ''0''
                                 @ str_nat (nat (- i))
                else replicate (2 - length (str_nat (nat i))) CHR ''0'' @ str_nat (nat i))"

section \<open>\<^verbatim>\<open>format_time\<close> (the same function in the three scripts)\<close>

text \<open>
  Python's \<^verbatim>\<open>//\<close> and \<^verbatim>\<open>%\<close> on floats with a positive divisor: the floor of the
  quotient, and the remainder that goes with it.
\<close>

definition floordiv :: "real \<Rightarrow> real \<Rightarrow> int" where
  "floordiv x y = \<lfloor>x / y\<rfloor>"

definition pymod :: "real \<Rightarrow> real \<Rightarrow> real" where
  "pymod x y = x - y * of_int \<lfloor>x / y\<rfloor>"

definition time_h :: "real \<Rightarrow> int" where
  "time_h seconds = floordiv seconds 3600"

definition time_m :: "real \<Rightarrow> int" where
  "time_m seconds = floordiv (pymod seconds 3600) 60"

definition time_s :: "real \<Rightarrow> int" where
  "time_s seconds = \<lfloor>pymod seconds 60\<rfloor>"

definition format_time :: "real \<Rightarrow> string" where
  "format_time seconds =
     (let h = time_h seconds; m = time_m seconds; s = time_s seconds
      in if h > 0 then str_int h @ '':'' @ fmt_02d m @ '':'' @ fmt_02d s
         else str_int m @ '':'' @ fmt_02d s)"

section \<open>Markdown rendering (\<^verbatim>\<open>save_transcript\<close> in fetch-transcript.py, \<^verbatim>\<open>main\<close> in translate.py)\<close>

text \<open>
  \<^verbatim>\<open>lines.append(f"**[{timestamp}]** {seg['text']}\n")\<close> for every segment, then
  \<^verbatim>\<open>f.write("\n".join(lines))\<close>.
\<close>

definition md_line :: "segment \<Rightarrow> string" where
  "md_line seg = ''**['' @ format_time (start seg) @ '']** '' @ text seg"

definition markdown :: "segment list \<Rightarrow> string" where
  "markdown segments = join [CHR 0x0A] (map (\<lambda>seg. md_line seg @ [CHR 0x0A]) segments)"

text \<open>A number below 100 written with exactly two decimal digits.\<close>

definition two_digits :: "int \<Rightarrow> string" where
  "two_digits n = [digit_char (nat n div 10), digit_char (nat n mod 10)]"

section \<open>Segment merger: \<^verbatim>\<open>merge_into_paragraphs\<close> (fetch-transcript.py)\<close>

text \<open>
  The test of the loop body, with the source's local names: the accumulator is closed on a
  pause longer than \<open>pause_threshold\<close> after at least ten seconds, or when it has reached
  \<open>target_duration\<close>.
\<close>

definition should_break :: "real \<Rightarrow> real \<Rightarrow> segment \<Rightarrow> segment \<Rightarrow> bool" where
  "should_break target_duration pause_threshold current seg =
     (let current_end = start current + duration current;
          gap = start seg - current_end;
          current_len = duration current
      in (gap > pause_threshold \<and> current_len \<ge> 10) \<or> current_len \<ge> target_duration)"

text \<open>
  The \<^verbatim>\<open>else\<close> branch: \<^verbatim>\<open>current["text"] += " " + seg["text"]\<close>, then
  \<^verbatim>\<open>current["duration"] = (seg["start"] + seg["duration"]) - current["start"]\<close>.
\<close>

definition absorb :: "segment \<Rightarrow> segment \<Rightarrow> segment" where
  "absorb current seg =
     current\<lparr>text := text current @ '' '' @ text seg,
             duration := (start seg + duration seg) - start current\<rparr>"

text \<open>One iteration of the loop on the state \<open>(merged, current)\<close>.\<close>

definition merge_step ::
  "real \<Rightarrow> real \<Rightarrow> segment list \<times> segment \<Rightarrow> segment \<Rightarrow> segment list \<times> segment" where
  "merge_step target_duration pause_threshold st seg =
     (case st of (merged, current) \<Rightarrow>
        if should_break target_duration pause_threshold current seg
        then (merged @ [current], seg)
        else (merged, absorb current seg))"

definition merge_into_paragraphs :: "segment list \<Rightarrow> real \<Rightarrow> real \<Rightarrow> segment list" where
  "merge_into_paragraphs segments target_duration pause_threshold =
     (case segments of
        [] \<Rightarrow> segments
      | first # rest \<Rightarrow>
          (case foldl (merge_step target_duration pause_threshold) ([], first) rest of
             (merged, current) \<Rightarrow> merged @ [current]))"

subsection \<open>The merger as the specification words it\<close>



subsection \<open>The raw segments consumed by each merged segment\<close>





subsection \<open>The merger on a store of objects\<close>

text \<open>
  The segments are Python dictionaries, which the loop updates in place. To see which
  objects it writes to, the store is a list of dictionaries addressed by position:
  \<^verbatim>\<open>dict(seg)\<close> allocates a copy at the end of the store, and the two assignments of the
  \<^verbatim>\<open>else\<close> branch write to the object \<open>current\<close> refers to, one after the other.
  The state of the loop is \<open>(store, merged, current)\<close>, with references for objects.
\<close>

type_synonym store = "segment list"

definition store_step ::
  "real \<Rightarrow> real \<Rightarrow> store \<times> nat list \<times> nat \<Rightarrow> nat \<Rightarrow> store \<times> nat list \<times> nat" where
  "store_step target_duration pause_threshold st seg =
     (case st of (h, merged, current) \<Rightarrow>
        if should_break target_duration pause_threshold (h ! current) (h ! seg)
        then (h @ [h ! seg], merged @ [current], length h)
        else
          (let h1 = h[current := (h ! current)\<lparr>text := text (h ! current) @ '' '' @ text (h ! seg)\<rparr>];
               h2 = h1[current := (h1 ! current)
                         \<lparr>duration := (start (h1 ! seg) + duration (h1 ! seg)) - start (h1 ! current)\<rparr>]
           in (h2, merged, current)))"

definition store_merge :: "store \<Rightarrow> nat list \<Rightarrow> real \<Rightarrow> real \<Rightarrow> store \<times> nat list" where
  "store_merge h segments target_duration pause_threshold =
     (case segments of
        [] \<Rightarrow> (h, segments)
      | first # rest \<Rightarrow>
          (case foldl (store_step target_duration pause_threshold) (h @ [h ! first], [], length h) rest of
             (h', merged, current) \<Rightarrow> (h', merged @ [current])))"

section \<open>The transformation request of edit-transcript.py\<close>

text \<open>
  The external service is a parameter: a function from the request to the text of the
  response, \<open>None\<close> where the call raises. The episode metadata is the dictionary read
  from \<^verbatim>\<open>meta.json\<close>, with each value as the text an f-string prints for it.
\<close>

record request =
  model :: string
  max_tokens :: nat
  system :: string
  user_content :: string

type_synonym client = "request \<Rightarrow> string option"

type_synonym metadata = "string \<rightharpoonup> string"

text \<open>\<^verbatim>\<open>meta.get(key, default)\<close>\<close>

definition meta_get :: "metadata \<Rightarrow> string \<Rightarrow> string \<Rightarrow> string" where
  "meta_get meta key dflt = (case meta key of None \<Rightarrow> dflt | Some v \<Rightarrow> v)"

text \<open>\<^verbatim>\<open>for seg in segments: text_block += f"[{format_time(seg['start'])}] {seg['text']}\n"\<close>\<close>

definition text_block :: "segment list \<Rightarrow> string" where
  "text_block segments =
     foldl (\<lambda>block seg. block @ ''['' @ format_time (start seg) @ ''] '' @ text seg @ ''\<newline>'')
       [] segments"

definition lang_name :: "string \<Rightarrow> string" where
  "lang_name lang =
     (if lang = ''es'' then ''Spanish'' else if lang = ''en'' then ''English'' else lang)"

text \<open>The three texts of \<^verbatim>\<open>structure_instruction\<close> (lines 113 to 128).\<close>

definition open_only_instruction :: string where
  "open_only_instruction =
     ''Generate a COMPLETE HTML document starting with <!DOCTYPE html>, including all CSS styles, the <header> section, and the first content sections. Do NOT close the </body> or </html> tags ''
     @ [CHR 0xC3, CHR 0xA2] @ [CHR 0xE2, CHR 0x82, CHR 0xAC] @ [CHR 0xE2, CHR 0x80, CHR 0x9D]
     @ '' more content will follow.''"

definition close_only_instruction :: string where
  "close_only_instruction =
     ''Generate ONLY the <section> HTML elements for this chunk's content. Do NOT include <!DOCTYPE>, <head>, <style>, or <header>. After the last section, add the closing <footer>, </body>, and </html> tags.''"

definition body_only_instruction :: string where
  "body_only_instruction =
     ''Generate ONLY the <section> HTML elements for this chunk's content. Do NOT include <!DOCTYPE>, <head>, <style>, or <header>.''"

definition structure_instruction :: "int \<Rightarrow> int \<Rightarrow> string" where
  "structure_instruction chunk_index total_chunks =
     (if chunk_index = 0 then open_only_instruction
      else if chunk_index = total_chunks - 1 then close_only_instruction
      else body_only_instruction)"

text \<open>
  \<^verbatim>\<open>reference_instruction\<close> (lines 90 to 103). \<^verbatim>\<open>if reference_html:\<close> is false for
  \<^verbatim>\<open>None\<close> and for the empty string.
\<close>

definition consistency_instruction :: string where
  "consistency_instruction =
     ''\<newline>\<newline>Continue using the same HTML structure (sections, dialogue divs, speaker classes, blockquotes) as the previous chunks.''"

definition reference_instruction :: "string option \<Rightarrow> int \<Rightarrow> string" where
  "reference_instruction reference_html chunk_index =
     (case reference_html of
        None \<Rightarrow> []
      | Some html \<Rightarrow>
          if html = [] then []
          else if chunk_index = 0
          then ''\<newline>\<newline>Here is a COMPLETE reference HTML from another episode. Match this EXACT style, CSS, and HTML structure:\<newline>\<newline>```html\<newline>''
               @ html @ ''\<newline>```\<newline>''
          else consistency_instruction)"

text \<open>\<^verbatim>\<open>context_instruction\<close> (lines 105 to 110).\<close>

definition context_instruction :: "string \<Rightarrow> string" where
  "context_instruction previous_sections =
     (if previous_sections = [] then []
      else ''\<newline>\<newline>Here are the section titles already generated in previous chunks (do NOT repeat these, create new section titles):\<newline>''
           @ previous_sections)"

text \<open>The part of the system prompt that does not depend on the window.\<close>

definition editing_rules :: "metadata \<Rightarrow> string \<Rightarrow> string" where
  "editing_rules meta lang =
     ''You are an expert transcript editor for a podcast about the Law of One and Confederation philosophy. Your task is to create a clean, readable edited HTML transcript in ''
     @ lang_name lang
     @ ''.\<newline>\<newline>Episode: '' @ meta_get meta ''title'' []
     @ '' (Episode '' @ meta_get meta ''number'' []
     @ '')\<newline>Description: '' @ meta_get meta ''description'' []
     @ ''\<newline>Duration: '' @ meta_get meta ''duration'' []
     @ ''\<newline>\<newline>EDITING RULES:\<newline>- Remove speech repetitions, filler words, false starts, and verbal tics\<newline>- Clean up grammar while preserving the speaker's voice and meaning\<newline>- Identify speakers by name (look for self-introductions or context clues)\<newline>- Group related dialogue into thematic sections with descriptive <h2> titles\<newline>- Use <blockquote> for channeled/quoted material with <span class='source'> attribution\<newline>- Use CSS classes: 'speaker jeremy', 'speaker jamie', 'speaker nithin', 'speaker ryan' etc.\<newline>- Keep the conversational tone natural but readable\<newline>- Preserve important spiritual/philosophical concepts accurately\<newline>- Keep proper nouns as-is (Ra, Confederation, Law of One, etc.)\<newline>- Return ONLY valid HTML, no markdown or explanations\<newline>\<newline>''"

text \<open>The arguments of \<^verbatim>\<open>client.messages.create\<close> (lines 130 to 164).\<close>

definition edit_request ::
  "segment list \<Rightarrow> metadata \<Rightarrow> string \<Rightarrow> string option \<Rightarrow> int \<Rightarrow> int \<Rightarrow> string \<Rightarrow> request" where
  "edit_request segments meta lang reference_html chunk_index total_chunks previous_sections =
     \<lparr>model = ''claude-sonnet-4-5-20250929'',
      max_tokens = 16000,
      system = editing_rules meta lang
               @ structure_instruction chunk_index total_chunks
               @ reference_instruction reference_html chunk_index
               @ context_instruction previous_sections,
      user_content = ''Edit and structure this transcript chunk ('' @ str_int (chunk_index + 1)
               @ ''/'' @ str_int total_chunks @ ''):\<newline>\<newline>'' @ text_block segments\<rparr>"

definition edit_transcript ::
  "client \<Rightarrow> segment list \<Rightarrow> metadata \<Rightarrow> string \<Rightarrow> string option \<Rightarrow> int \<Rightarrow> int \<Rightarrow> string
     \<Rightarrow> string option" where
  "edit_transcript cl segments meta lang reference_html chunk_index total_chunks previous_sections =
     cl (edit_request segments meta lang reference_html chunk_index total_chunks previous_sections)"

section \<open>\<^verbatim>\<open>extract_section_titles\<close> (edit-transcript.py)\<close>

text \<open>
  The title of a line: present when the line holds both \<^verbatim>\<open><h2>\<close> and \<^verbatim>\<open></h2>\<close>; it
  is the slice \<^verbatim>\<open>line[start:end]\<close> between the first of each, empty when the closing tag
  comes first.
\<close>

definition line_title :: "string \<Rightarrow> string option" where
  "line_title line =
     (case (find_sub ''<h2>'' line, find_sub ''</h2>'' line) of
        (Some i, Some end) \<Rightarrow> Some (''- '' @ take (end - (i + 4)) (drop (i + 4) line))
      | _ \<Rightarrow> None)"

text \<open>The list \<^verbatim>\<open>titles\<close> built by the loop, and the string returned.\<close>

definition section_titles :: "string \<Rightarrow> string list" where
  "section_titles html = List.map_filter line_title (split_on (CHR 0x0A) html)"

definition extract_section_titles :: "string \<Rightarrow> string" where
  "extract_section_titles html = join ''\<newline>'' (section_titles html)"

section \<open>The window loop of \<^verbatim>\<open>main\<close> (edit-transcript.py, lines 241 to 258)\<close>

text \<open>
  What the run does to the outside is a trace of events: text printed (with the \<^verbatim>\<open>end\<close>
  that follows it), a call of the service, a file written.
\<close>

datatype event = Print string string | ApiCall request | WriteFile string string

text \<open>
  The state of the loop is the trace with the two variables \<^verbatim>\<open>all_html_parts\<close> and
  \<^verbatim>\<open>previous_sections\<close>; the result says also whether the loop ran to its end
  (\<open>False\<close>: a call of the service raised, which ends the run).
\<close>

record edit_state =
  trace :: "event list"
  all_html_parts :: "string list"
  previous_sections :: string

fun edit_chunks ::
  "client \<Rightarrow> metadata \<Rightarrow> string \<Rightarrow> string option \<Rightarrow> nat \<Rightarrow> nat \<Rightarrow> segment list list \<Rightarrow> edit_state
     \<Rightarrow> edit_state \<times> bool" where
  "edit_chunks cl meta lang reference_html total_chunks i [] st = (st, True)"
| "edit_chunks cl meta lang reference_html total_chunks i (chunk # rest) st =
     (let announce = Print (''  Chunk '' @ str_int (int i + 1) @ ''/'' @ str_int (int total_chunks) @ '' (''
                            @ str_int (int (length chunk)) @ '' segments)...'') '' '';
          req = edit_request chunk meta lang reference_html (int i) (int total_chunks) (previous_sections st)
      in case cl req of
           None \<Rightarrow> (st\<lparr>trace := trace st @ [announce, ApiCall req]\<rparr>, False)
         | Some html_part \<Rightarrow>
             edit_chunks cl meta lang reference_html total_chunks (Suc i) rest
               \<lparr>trace = trace st @ [announce, ApiCall req, Print ''done'' ''\<newline>''],
                all_html_parts = all_html_parts st @ [html_part],
                previous_sections = previous_sections st @ extract_section_titles html_part @ ''\<newline>''\<rparr>)"

text \<open>The requests sent, in order.\<close>

fun requests :: "event list \<Rightarrow> request list" where
  "requests [] = []"
| "requests (ApiCall req # es) = req # requests es"
| "requests (e # es) = requests es"


section \<open>\<^verbatim>\<open>translate_chunk\<close> (translate.py)\<close>

definition translate_request :: "segment list \<Rightarrow> string \<Rightarrow> string \<Rightarrow> request" where
  "translate_request segments target_lang episode_context =
     \<lparr>model = ''claude-sonnet-4-5-20250929'',
      max_tokens = 8000,
      system = ''You are a professional translator specializing in spiritual and philosophical content. You are translating a podcast transcript about the Law of One and Confederation philosophy. Context: ''
               @ episode_context
               @ ''\<newline>\<newline>Rules:\<newline>- Translate from English to '' @ target_lang
               @ ''\<newline>- Preserve the conversational tone\<newline>- Keep proper nouns (Ra, Confederation, Law of One) as-is\<newline>- Keep technical spiritual terms with their common Spanish equivalents\<newline>- Preserve the timestamp markers exactly as [HH:MM:SS] or [M:SS]\<newline>- Return ONLY the translated text with timestamps, no explanations\<newline>- Each line must start with the timestamp in brackets'',
      user_content = ''Translate this transcript segment:\<newline>\<newline>'' @ text_block segments\<rparr>"

text \<open>
  The text kept from a line of the response: \<^verbatim>\<open>line.split("]", 1)[1].strip()\<close> when the
  line holds a closing bracket (the split has then two pieces), the line itself otherwise.
\<close>

definition line_text :: "string \<Rightarrow> string" where
  "line_text line =
     (if CHR '']'' \<in> set line
      then (case split_once (CHR '']'') line of
              before # rest # others \<Rightarrow> strip rest
            | _ \<Rightarrow> line)
      else line)"

text \<open>
  Lines 92 to 104: \<^verbatim>\<open>zip\<close> pairs the segments with the lines of the stripped response
  and stops at the shorter of the two.
\<close>

definition translated_segments :: "segment list \<Rightarrow> string \<Rightarrow> segment list" where
  "translated_segments segments translated_text =
     map (\<lambda>(seg, line). \<lparr>start = start seg, duration = duration seg, text = line_text line\<rparr>)
       (zip segments (split_on (CHR 0x0A) (strip translated_text)))"

definition translate_chunk :: "client \<Rightarrow> segment list \<Rightarrow> string \<Rightarrow> string \<Rightarrow> segment list option" where
  "translate_chunk cl segments target_lang episode_context =
     map_option (translated_segments segments)
       (cl (translate_request segments target_lang episode_context))"

section \<open>The outside of a run: arguments, files, environment, service\<close>

text \<open>
  A run starts from the command line, the directory of the project, the text files, the
  environment variables and the service. The JSON library is a parameter: \<open>json_segments\<close>
  and \<open>json_metadata\<close> parse a file's text (\<open>None\<close>: \<^verbatim>\<open>json.load\<close> raises) and
  \<open>json_dump\<close> writes segments. A run ends by returning or \<^verbatim>\<open>sys.exit\<close> (\<open>Exit\<close> with the
  status) or by an exception nobody catches (\<open>Raised\<close>; the interpreter exits with status 1).
\<close>

datatype outcome = Exit nat | Raised

record world =
  argv :: "string list"
  project_root :: string
  files :: "string \<rightharpoonup> string"
  environ :: "string \<rightharpoonup> string"
  json_segments :: "string \<Rightarrow> segment list option"
  json_metadata :: "string \<Rightarrow> metadata option"
  json_dump :: "segment list \<Rightarrow> string"
  api :: client

text \<open>\<^verbatim>\<open>os.path.join\<close> (POSIX): a component that starts with a slash discards what precedes it.\<close>

definition path_join2 :: "string \<Rightarrow> string \<Rightarrow> string" where
  "path_join2 path b =
     (if prefix ''/'' b then b
      else if path = [] \<or> suffix ''/'' path then path @ b
      else path @ ''/'' @ b)"

fun path_join :: "string list \<Rightarrow> string" where
  "path_join [] = []"
| "path_join (a # p) = foldl path_join2 a p"

text \<open>\<^verbatim>\<open>xs.index(x)\<close> for an element of the list: the position of its first occurrence.\<close>

fun index_of :: "'a \<Rightarrow> 'a list \<Rightarrow> nat" where
  "index_of x [] = 0"
| "index_of x (y # ys) = (if x = y then 0 else Suc (index_of x ys))"

text \<open>
  The flags: \<^verbatim>\<open>if flag in sys.argv: idx = sys.argv.index(flag); if idx + 1 < len(sys.argv):
  value = sys.argv[idx + 1]\<close>.
\<close>

definition flag_value :: "string list \<Rightarrow> string \<Rightarrow> string \<Rightarrow> string" where
  "flag_value args flag dflt =
     (if flag \<in> set args
      then (let idx = index_of flag args
            in if idx + 1 < length args then args ! (idx + 1) else dflt)
      else dflt)"

text \<open>Reading a file in text mode turns \<open>CR LF\<close> and \<open>CR\<close> into \<open>LF\<close>.\<close>

fun text_mode :: "string \<Rightarrow> string" where
  "text_mode [] = []"
| "text_mode [c] = [if c = CHR 0x0D then CHR 0x0A else c]"
| "text_mode (c # d # cs) =
     (if c = CHR 0x0D \<and> d = CHR 0x0A then CHR 0x0A # text_mode cs
      else if c = CHR 0x0D then CHR 0x0A # text_mode (d # cs)
      else c # text_mode (d # cs))"

text \<open>
  \<^verbatim>\<open>load_env\<close> (both scripts): when the key is not in the environment and
  \<^verbatim>\<open>.env.local\<close> exists, every line \<open>key=value\<close> that is not a comment sets a variable.
\<close>

definition env_line :: "(string \<rightharpoonup> string) \<Rightarrow> string \<Rightarrow> (string \<rightharpoonup> string)" where
  "env_line env raw =
     (let line = strip raw
      in if line \<noteq> [] \<and> \<not> prefix ''#'' line \<and> CHR ''='' \<in> set line
         then (case split_once (CHR ''='') line of
                 key # val # others \<Rightarrow> env(strip key \<mapsto> strip val)
               | _ \<Rightarrow> env)
         else env)"

definition load_env :: "world \<Rightarrow> (string \<rightharpoonup> string)" where
  "load_env w =
     (if ''ANTHROPIC_API_KEY'' \<in> dom (environ w) then environ w
      else (case files w (path_join [project_root w, ''.env.local'']) of
              None \<Rightarrow> environ w
            | Some content \<Rightarrow> foldl env_line (environ w) (split_on (CHR 0x0A) (text_mode content))))"

section \<open>\<^verbatim>\<open>main\<close> of edit-transcript.py\<close>

definition load_reference_html :: "world \<Rightarrow> string \<Rightarrow> string \<Rightarrow> string option" where
  "load_reference_html w episode_num lang =
     map_option text_mode
       (files w (path_join [project_root w, ''content'', ''episodes'', episode_num,
                            ''transcript.'' @ lang @ ''.html'']))"

text \<open>The local variables of \<^verbatim>\<open>main\<close> that are computed from the command line.\<close>

definition edit_lang :: "world \<Rightarrow> string" where
  "edit_lang w = flag_value (argv w) ''--lang'' ''es''"

definition edit_reference_ep :: "world \<Rightarrow> string" where
  "edit_reference_ep w = flag_value (argv w) ''--reference'' ''66''"

definition episode_dir :: "world \<Rightarrow> string" where
  "episode_dir w = path_join [project_root w, ''content'', ''episodes'', argv w ! 1]"

definition edit_source_path :: "world \<Rightarrow> string" where
  "edit_source_path w = path_join [episode_dir w, ''transcript.'' @ edit_lang w @ ''.json'']"

definition meta_path :: "world \<Rightarrow> string" where
  "meta_path w = path_join [episode_dir w, ''meta.json'']"

text \<open>Lines 219 to 268: the run once the segments and the metadata are loaded.\<close>

definition edit_with_meta :: "world \<Rightarrow> segment list \<Rightarrow> metadata \<Rightarrow> event list \<times> outcome" where
  "edit_with_meta w segments meta =
     (let lang = edit_lang w;
          reference_ep = edit_reference_ep w;
          reference_html = load_reference_html w reference_ep lang;
          tr0 = [if reference_html \<noteq> None \<and> reference_html \<noteq> Some []
                 then Print (''  Using episode '' @ reference_ep @ '' as style reference'') ''\<newline>''
                 else Print (''  No reference HTML found for episode '' @ reference_ep @ '', using defaults'')
                        ''\<newline>'']
      in if ''ANTHROPIC_API_KEY'' \<notin> dom (load_env w)
         then (tr0 @ [Print ''Error: ANTHROPIC_API_KEY not found.'' ''\<newline>'',
                      Print ''Set it in .env.local or as an environment variable.'' ''\<newline>''],
               Exit 1)
         else
           (let tr1 = tr0 @ [Print (''Editing Episode '' @ argv w ! 1 @ '' transcript ('' @ lang @ '')'')
                               ''\<newline>'',
                             Print (''  Source: '' @ str_int (int (length segments)) @ '' segments'')
                               ''\<newline>'']
            in case chunk_segments segments 40 of
                 Inl err \<Rightarrow> (tr1, Raised)
               | Inr chunks \<Rightarrow>
                   (case edit_chunks (api w) meta lang reference_html (length chunks) 0 chunks
                           \<lparr>trace = tr1 @ [Print (''  Processing '' @ str_int (int (length chunks))
                                                    @ '' chunks...'') ''\<newline>''],
                            all_html_parts = [], previous_sections = []\<rparr> of
                      (st, finished) \<Rightarrow>
                        if \<not> finished then (trace st, Raised)
                        else
                          (let full_html = join ''\<newline>\<newline>'' (all_html_parts st);
                               output_path = path_join [episode_dir w, ''transcript.'' @ lang @ ''.html'']
                           in (trace st @ [WriteFile output_path full_html,
                                           Print (''  Saved: '' @ output_path) ''\<newline>'',
                                           Print ''Done!'' ''\<newline>''],
                               Exit 0)))))"

text \<open>Lines 181 to 217: arguments, the source transcript, the metadata.\<close>

definition main_edit :: "world \<Rightarrow> event list \<times> outcome" where
  "main_edit w =
     (if length (argv w) < 2
      then ([Print ''Usage: python edit-transcript.py <episode_number> [--lang es] [--reference 66]''
               ''\<newline>''], Exit 1)
      else
        (case files w (edit_source_path w) of
           None \<Rightarrow>
             ([Print (''Error: No '' @ edit_lang w @ '' transcript found at '' @ edit_source_path w)
                 ''\<newline>''], Exit 1)
         | Some source_text \<Rightarrow>
             (case json_segments w source_text of
                None \<Rightarrow> ([], Raised)
              | Some segments \<Rightarrow>
                  (case files w (meta_path w) of
                     None \<Rightarrow> edit_with_meta w segments Map.empty
                   | Some meta_text \<Rightarrow>
                       (case json_metadata w meta_text of
                          None \<Rightarrow> ([], Raised)
                        | Some meta \<Rightarrow> edit_with_meta w segments meta)))))"

section \<open>\<^verbatim>\<open>main\<close> of translate.py\<close>

definition target_lang :: "world \<Rightarrow> string" where
  "target_lang w = flag_value (argv w) ''--target'' ''es''"

definition translate_source_path :: "world \<Rightarrow> string" where
  "translate_source_path w = path_join [episode_dir w, ''transcript.en.json'']"

text \<open>Lines 136 to 142: the context without and with a metadata file.\<close>

definition episode_context :: "string \<Rightarrow> metadata option \<Rightarrow> string" where
  "episode_context episode_num loaded =
     (case loaded of
        None \<Rightarrow> ''Episode '' @ episode_num
      | Some meta \<Rightarrow>
          (let ctx = ''Episode '' @ meta_get meta ''number'' episode_num @ '': ''
                       @ meta_get meta ''title'' []
           in if meta_get meta ''description'' [] \<noteq> []
              then ctx @ '' - '' @ meta_get meta ''description'' []
              else ctx))"

text \<open>The loop of lines 159 to 164 on the state \<open>(trace, all_translated)\<close>.\<close>

fun translate_chunks ::
  "client \<Rightarrow> string \<Rightarrow> string \<Rightarrow> nat \<Rightarrow> nat \<Rightarrow> segment list list \<Rightarrow> event list \<times> segment list
     \<Rightarrow> (event list \<times> segment list) \<times> bool" where
  "translate_chunks cl tlang ctx total_chunks i [] st = (st, True)"
| "translate_chunks cl tlang ctx total_chunks i (chunk # rest) st =
     (let announce = Print (''  Chunk '' @ str_int (int i + 1) @ ''/'' @ str_int (int total_chunks) @ '' (''
                            @ str_int (int (length chunk)) @ '' segments)...'') '' '';
          req = translate_request chunk tlang ctx
      in case translate_chunk cl chunk tlang ctx of
           None \<Rightarrow> ((fst st @ [announce, ApiCall req], snd st), False)
         | Some translated \<Rightarrow>
             translate_chunks cl tlang ctx total_chunks (Suc i) rest
               (fst st @ [announce, ApiCall req, Print ''done'' ''\<newline>''], snd st @ translated))"

text \<open>Lines 144 to 182: the run once the segments and the context are there.\<close>

definition translate_with_context :: "world \<Rightarrow> segment list \<Rightarrow> string \<Rightarrow> event list \<times> outcome" where
  "translate_with_context w segments ctx =
     (if ''ANTHROPIC_API_KEY'' \<notin> dom (load_env w)
      then ([Print ''Error: ANTHROPIC_API_KEY not found.'' ''\<newline>'',
             Print ''Set it in .env.local or as an environment variable.'' ''\<newline>''],
            Exit 1)
      else
        (let tlang = target_lang w;
             tr1 = [Print (''Translating Episode '' @ argv w ! 1 @ '' to '' @ tlang) ''\<newline>'',
                    Print (''  Source: '' @ str_int (int (length segments)) @ '' segments'') ''\<newline>'']
         in case chunk_segments segments 50 of
              Inl err \<Rightarrow> (tr1, Raised)
            | Inr chunks \<Rightarrow>
                (case translate_chunks (api w) tlang ctx (length chunks) 0 chunks
                        (tr1 @ [Print (''  Processing '' @ str_int (int (length chunks)) @ '' chunks...'')
                                  ''\<newline>''], []) of
                   ((tr, all_translated), finished) \<Rightarrow>
                     if \<not> finished then (tr, Raised)
                     else
                       (let json_path = path_join [episode_dir w, ''transcript.'' @ tlang @ ''.json''];
                            md_path = path_join [episode_dir w, ''transcript.'' @ tlang @ ''.md'']
                        in (tr @ [WriteFile json_path (json_dump w all_translated),
                                  Print (''  Saved JSON: '' @ json_path) ''\<newline>'',
                                  WriteFile md_path (markdown all_translated),
                                  Print (''  Saved Markdown: '' @ md_path) ''\<newline>'',
                                  Print ''Done!'' ''\<newline>''],
                            Exit 0)))))"

definition main_translate :: "world \<Rightarrow> event list \<times> outcome" where
  "main_translate w =
     (if length (argv w) < 2
      then ([Print ''Usage: python translate.py <episode_number> [--target es]'' ''\<newline>''], Exit 1)
      else
        (case files w (translate_source_path w) of
           None \<Rightarrow>
             ([Print (''Error: No English transcript found at '' @ translate_source_path w) ''\<newline>'',
               Print ''Run fetch-transcript.py first.'' ''\<newline>''], Exit 1)
         | Some source_text \<Rightarrow>
             (case json_segments w source_text of
                None \<Rightarrow> ([], Raised)
              | Some segments \<Rightarrow>
                  (case files w (meta_path w) of
                     None \<Rightarrow> translate_with_context w segments (episode_context (argv w ! 1) None)
                   | Some meta_text \<Rightarrow>
                       (case json_metadata w meta_text of
                          None \<Rightarrow> ([], Raised)
                        | Some meta \<Rightarrow>
                            translate_with_context w segments
                              (episode_context (argv w ! 1) (Some meta)))))))"

section \<open>Properties of the window planner\<close>

lemma concat_chunk_loop: "0 < m \<Longrightarrow> concat (chunk_loop segs m i) = drop i segs"
proof (induction segs m i rule: chunk_loop.induct)
  case (1 segs m i)
  show ?case
  proof (cases "length segs \<le> i")
    case True
    then show ?thesis by (simp add: chunk_loop.simps [of segs m i])
  next
    case False
    with 1 have "concat (chunk_loop segs m (i + m)) = drop (i + m) segs" by simp
    moreover have "take m (drop i segs) @ drop (i + m) segs = drop i segs"
      by (metis add.commute append_take_drop_id drop_drop)
    ultimately show ?thesis
      using False 1(2) by (simp add: chunk_loop.simps [of segs m i])
  qed
qed

lemma chunk_loop_sizes:
  "0 < m \<Longrightarrow> c \<in> set (chunk_loop segs m i) \<Longrightarrow> c \<noteq> [] \<and> length c \<le> m"
proof (induction segs m i rule: chunk_loop.induct)
  case (1 segs m i)
  show ?case
  proof (cases "length segs \<le> i")
    case True
    with 1(3) show ?thesis by (simp add: chunk_loop.simps [of segs m i])
  next
    case False
    with 1(2,3) have "c = take m (drop i segs) \<or> c \<in> set (chunk_loop segs m (i + m))"
      by (simp add: chunk_loop.simps [of segs m i])
    then show ?thesis
    proof
      assume "c = take m (drop i segs)"
      with False 1(2) show ?thesis by auto
    next
      assume "c \<in> set (chunk_loop segs m (i + m))"
      with 1 False show ?thesis by simp
    qed
  qed
qed

lemma chunk_loop_full:
  "0 < m \<Longrightarrow> c \<in> set (butlast (chunk_loop segs m i)) \<Longrightarrow> length c = m"
proof (induction segs m i rule: chunk_loop.induct)
  case (1 segs m i)
  show ?case
  proof (cases "length segs \<le> i")
    case True
    with 1(3) show ?thesis by (simp add: chunk_loop.simps [of segs m i])
  next
    case False
    show ?thesis
    proof (cases "chunk_loop segs m (i + m) = []")
      case True
      with False 1(2,3) show ?thesis by (simp add: chunk_loop.simps [of segs m i])
    next
      case rest: False
      then have more: "i + m < length segs"
        using 1(2) by (simp add: chunk_loop.simps [of segs m "i + m"] split: if_splits)
      from rest False 1(2,3)
      have "c = take m (drop i segs) \<or> c \<in> set (butlast (chunk_loop segs m (i + m)))"
        by (simp add: chunk_loop.simps [of segs m i])
      then show ?thesis
      proof
        assume "c = take m (drop i segs)"
        with more show ?thesis by simp
      next
        assume "c \<in> set (butlast (chunk_loop segs m (i + m)))"
        with 1 False show ?thesis by simp
      qed
    qed
  qed
qed

text \<open>
  C5. For every segment sequence and every \<open>max_segments \<ge> 1\<close> the planner returns
  (it does not raise) an ordered list of windows whose concatenation is the input, so the
  windows are an order-preserving, non-overlapping partition and their sizes sum to the input
  length; no window is empty or longer than \<open>max_segments\<close>, and every window except the
  last has exactly \<open>max_segments\<close> elements. The planner is a function of its two inputs.
\<close>

theorem chunk_segments_partition:
  assumes "1 \<le> max_segments"
  shows "\<exists>chunks. chunk_segments segments max_segments = Inr chunks
           \<and> concat chunks = segments
           \<and> sum_list (map length chunks) = length segments
           \<and> (\<forall>c \<in> set chunks. c \<noteq> [] \<and> int (length c) \<le> max_segments)
           \<and> (\<forall>c \<in> set (butlast chunks). int (length c) = max_segments)"
proof -
  define m where "m = nat max_segments"
  with assms have m: "0 < m" "int m = max_segments" by simp_all
  define chunks where "chunks = chunk_loop segments m 0"
  have run: "chunk_segments segments max_segments = Inr chunks"
    using assms by (simp add: chunk_segments_def chunks_def m_def)
  have cat: "concat chunks = segments"
    using concat_chunk_loop [OF m(1), of segments 0] by (simp add: chunks_def)
  have "length (concat chunks) = sum_list (map length chunks)"
    by (simp add: length_concat)
  with cat have total: "sum_list (map length chunks) = length segments" by simp
  have sizes: "\<forall>c \<in> set chunks. c \<noteq> [] \<and> int (length c) \<le> max_segments"
    using chunk_loop_sizes [OF m(1)] m(2) unfolding chunks_def by fastforce
  have full: "\<forall>c \<in> set (butlast chunks). int (length c) = max_segments"
    using chunk_loop_full [OF m(1)] m(2) unfolding chunks_def by fastforce
  from run cat total sizes full show ?thesis by blast
qed

theorem chunk_segments_partition_witness:
  "(1::int) \<le> 2
   \<and> chunk_segments [10, 20, 30, 40, 50 :: nat] 2 = Inr [[10, 20], [30, 40], [50]]"
proof -
  have h: "(1::int) \<le> 2" by simp
  have "chunk_segments [10, 20, 30, 40, 50 :: nat] 2 = Inr [[10, 20], [30, 40], [50]]"
    by (simp add: chunk_segments_def chunk_loop.simps)
  with h chunk_segments_partition [OF h, of "[10, 20, 30, 40, 50 :: nat]"] show ?thesis
    by simp
qed

section \<open>Properties of the Markdown rendering\<close>

lemma split_on_nonempty: "split_on sep s \<noteq> []"
  by (induction s) (auto split: list.splits)

lemma split_on_append_sep: "split_on sep (a @ sep # b) = split_on sep a @ split_on sep b"
proof (induction a)
  case Nil
  then show ?case by simp
next
  case (Cons c cs)
  then show ?case
    using split_on_nonempty [of sep cs] by (cases "split_on sep cs") auto
qed

lemma split_on_no_sep: "sep \<notin> set s \<Longrightarrow> split_on sep s = [s]"
  by (induction s) auto

lemma digit_char_digit: "digit_char d \<in> set ''0123456789''"
  unfolding digit_char_def by (rule nth_mem) simp

lemma digit_char_not_nl: "digit_char d \<noteq> CHR 0x0A"
  using digit_char_digit [of d] by auto

lemma str_nat_no_nl: "CHR 0x0A \<notin> set (str_nat n)"
proof (induction n rule: str_nat.induct)
  case (1 n)
  then show ?case
    by (subst str_nat.simps) (auto simp: digit_char_not_nl [symmetric])
qed

lemma str_int_no_nl: "CHR 0x0A \<notin> set (str_int i)"
  by (simp add: str_int_def str_nat_no_nl)

lemma fmt_02d_no_nl: "CHR 0x0A \<notin> set (fmt_02d i)"
  by (simp add: fmt_02d_def str_nat_no_nl)

lemma format_time_no_nl: "CHR 0x0A \<notin> set (format_time x)"
  by (simp add: format_time_def Let_def str_int_no_nl fmt_02d_no_nl)

lemma md_line_no_nl: "CHR 0x0A \<notin> set (text seg) \<Longrightarrow> CHR 0x0A \<notin> set (md_line seg)"
  by (simp add: md_line_def format_time_no_nl)

lemma split_markdown:
  "\<forall>seg \<in> set segments. CHR 0x0A \<notin> set (text seg) \<Longrightarrow> segments \<noteq> [] \<Longrightarrow>
   split_on (CHR 0x0A) (markdown segments) = concat (map (\<lambda>seg. [md_line seg, []]) segments)"
proof (induction segments rule: induct_list012)
  case 1
  then show ?case by simp
next
  case (2 x)
  then have "split_on (CHR 0x0A) (md_line x) = [md_line x]"
    by (simp add: split_on_no_sep md_line_no_nl)
  then show ?case
    using split_on_append_sep [of "CHR 0x0A" "md_line x" "[]"] by (simp add: markdown_def)
next
  case (3 x y zs)
  then have x: "split_on (CHR 0x0A) (md_line x) = [md_line x]"
    by (simp add: split_on_no_sep md_line_no_nl)
  from 3 have ih: "split_on (CHR 0x0A) (markdown (y # zs)) = concat (map (\<lambda>seg. [md_line seg, []]) (y # zs))"
    by simp
  have "markdown (x # y # zs) = md_line x @ CHR 0x0A # (CHR 0x0A # markdown (y # zs))"
    by (simp add: markdown_def)
  then have "split_on (CHR 0x0A) (markdown (x # y # zs))
      = split_on (CHR 0x0A) (md_line x) @ split_on (CHR 0x0A) (CHR 0x0A # markdown (y # zs))"
    by (simp only: split_on_append_sep)
  with x ih show ?case by simp
qed

lemma time_h_floor: "time_h x = \<lfloor>x\<rfloor> div 3600"
  using floor_divide_real_eq_div [of 3600 x] by (simp add: time_h_def floordiv_def)

lemma time_m_floor: "time_m x = \<lfloor>x\<rfloor> mod 3600 div 60"
proof -
  have k: "\<lfloor>x / 3600\<rfloor> = \<lfloor>x\<rfloor> div 3600"
    using floor_divide_real_eq_div [of 3600 x] by simp
  have "time_m x = \<lfloor>(x - 3600 * of_int (\<lfloor>x\<rfloor> div 3600)) / 60\<rfloor>"
    by (simp add: time_m_def floordiv_def pymod_def k)
  also have "\<dots> = \<lfloor>x - 3600 * of_int (\<lfloor>x\<rfloor> div 3600)\<rfloor> div 60"
    using floor_divide_real_eq_div [of 60 "x - 3600 * of_int (\<lfloor>x\<rfloor> div 3600)"] by simp
  also have "x - 3600 * of_int (\<lfloor>x\<rfloor> div 3600) = x - of_int (3600 * (\<lfloor>x\<rfloor> div 3600))"
    by simp
  also have "\<lfloor>x - of_int (3600 * (\<lfloor>x\<rfloor> div 3600))\<rfloor> = \<lfloor>x\<rfloor> - 3600 * (\<lfloor>x\<rfloor> div 3600)"
    by (rule floor_diff_of_int)
  also have "\<dots> = \<lfloor>x\<rfloor> mod 3600"
    by (simp add: minus_mult_div_eq_mod)
  finally show ?thesis .
qed

lemma time_s_floor: "time_s x = \<lfloor>x\<rfloor> mod 60"
proof -
  have k: "\<lfloor>x / 60\<rfloor> = \<lfloor>x\<rfloor> div 60"
    using floor_divide_real_eq_div [of 60 x] by simp
  have "time_s x = \<lfloor>x - of_int (60 * (\<lfloor>x\<rfloor> div 60))\<rfloor>"
    by (simp add: time_s_def pymod_def k)
  also have "\<dots> = \<lfloor>x\<rfloor> - 60 * (\<lfloor>x\<rfloor> div 60)"
    by (rule floor_diff_of_int)
  also have "\<dots> = \<lfloor>x\<rfloor> mod 60"
    by (simp add: minus_mult_div_eq_mod)
  finally show ?thesis .
qed

lemma fmt_02d_two_digits: "0 \<le> n \<Longrightarrow> n < 100 \<Longrightarrow> fmt_02d n = two_digits n"
proof -
  assume n: "0 \<le> n" "n < 100"
  show ?thesis
  proof (cases "nat n < 10")
    case True
    then have "str_nat (nat n) = [digit_char (nat n)]" by (simp add: str_nat.simps)
    moreover have "nat n div 10 = 0" using True by simp
    moreover have "digit_char 0 = CHR ''0''" by (simp add: digit_char_def)
    moreover have "digit_char (nat n mod 10) = digit_char (nat n)" by (simp add: digit_char_def)
    ultimately show ?thesis using n by (simp add: fmt_02d_def two_digits_def)
  next
    case False
    then have d: "nat n div 10 < 10" using n by simp
    have "str_nat (nat n) = str_nat (nat n div 10) @ [digit_char (nat n mod 10)]"
      using False by (subst str_nat.simps) simp
    also have "str_nat (nat n div 10) = [digit_char (nat n div 10)]"
      using d by (subst str_nat.simps) simp
    finally show ?thesis using n by (simp add: fmt_02d_def two_digits_def)
  qed
qed


lemma time_m_range: "0 \<le> time_m x \<and> time_m x < 60"
  by (simp add: time_m_floor pos_imp_zdiv_nonneg_iff)

lemma time_s_range: "0 \<le> time_s x \<and> time_s x < 60"
  by (simp add: time_s_floor)

lemma format_time_fields:
  "format_time x =
     (let n = \<lfloor>x\<rfloor>
      in if 0 < n div 3600
         then str_int (n div 3600) @ '':'' @ two_digits (n mod 3600 div 60) @ '':'' @ two_digits (n mod 60)
         else str_int (n mod 3600 div 60) @ '':'' @ two_digits (n mod 60))"
proof -
  have m: "fmt_02d (time_m x) = two_digits (time_m x)"
    using time_m_range [of x] by (intro fmt_02d_two_digits) auto
  have s: "fmt_02d (time_s x) = two_digits (time_s x)"
    using time_s_range [of x] by (intro fmt_02d_two_digits) auto
  show ?thesis
    unfolding format_time_def Let_def m s
    by (simp add: time_h_floor time_m_floor time_s_floor)
qed

text \<open>
  C8 (as amended). For every segment sequence whose texts contain no line feed, the lines of
  the Markdown rendering are, in order, one line \<open>**[<timestamp>]** <text>\<close> per segment, each
  followed by an empty line; so the non-empty lines are exactly the segments' lines. For every
  number of seconds, with \<open>n\<close> its whole part, the timestamp is \<open>H:MM:SS\<close> when the hours
  \<open>n div 3600\<close> are positive and \<open>M:SS\<close> otherwise: the leading field is not padded, the
  minutes \<open>n mod 3600 div 60\<close> after the hours and the seconds \<open>n mod 60\<close> have exactly two
  digits.
\<close>

theorem markdown_one_line_per_segment:
  assumes "\<forall>seg \<in> set segments. CHR 0x0A \<notin> set (text seg)"
  shows "split_on (CHR 0x0A) (markdown segments) =
           (if segments = [] then [[]]
            else concat (map (\<lambda>seg. [''**['' @ format_time (start seg) @ '']** '' @ text seg, []])
                             segments))
         \<and> filter (\<lambda>l. l \<noteq> []) (split_on (CHR 0x0A) (markdown segments)) =
             map (\<lambda>seg. ''**['' @ format_time (start seg) @ '']** '' @ text seg) segments
         \<and> (\<forall>x. format_time x =
               (let n = \<lfloor>x\<rfloor>
                in if 0 < n div 3600
                   then str_int (n div 3600) @ '':'' @ two_digits (n mod 3600 div 60)
                          @ '':'' @ two_digits (n mod 60)
                   else str_int (n mod 3600 div 60) @ '':'' @ two_digits (n mod 60)))"
proof -
  have lines: "split_on (CHR 0x0A) (markdown segments) =
           (if segments = [] then [[]] else concat (map (\<lambda>seg. [md_line seg, []]) segments))"
    using split_markdown [OF assms] by (simp add: markdown_def)
  have "filter (\<lambda>l. l \<noteq> []) (concat (map (\<lambda>seg. [md_line seg, []]) segs)) = map md_line segs"
    for segs
    by (induction segs) (simp_all add: md_line_def)
  with lines have nonempty:
    "filter (\<lambda>l. l \<noteq> []) (split_on (CHR 0x0A) (markdown segments)) = map md_line segments"
    by simp
  have md: "md_line = (\<lambda>seg. ''**['' @ format_time (start seg) @ '']** '' @ text seg)"
    by (rule ext) (simp add: md_line_def)
  from lines nonempty format_time_fields show ?thesis
    unfolding md by blast
qed

theorem markdown_one_line_per_segment_witness:
  "CHR 0x0A \<notin> set ''hi'' \<and> CHR 0x0A \<notin> set ''yo''
   \<and> split_on (CHR 0x0A)
        (markdown [\<lparr>start = 0, duration = 1, text = ''hi''\<rparr>,
                   \<lparr>start = 3725.5, duration = 1, text = ''yo''\<rparr>])
      = [''**[0:00]** hi'', [], ''**[1:02:05]** yo'', []]"
proof -
  have h: "\<forall>seg \<in> set [\<lparr>start = 0, duration = 1, text = ''hi''\<rparr>,
                          \<lparr>start = 3725.5, duration = 1, text = ''yo''\<rparr>].
             CHR 0x0A \<notin> set (text seg)"
    by simp
  have t0: "format_time 0 = ''0:00''"
    by (simp add: format_time_def time_h_def time_m_def time_s_def floordiv_def pymod_def
        str_int_def fmt_02d_def str_nat.simps digit_char_def)
  have t1: "format_time (7451 / 2) = ''1:02:05''"
    by (simp add: format_time_def time_h_def time_m_def time_s_def floordiv_def pymod_def
        str_int_def fmt_02d_def str_nat.simps digit_char_def)
  show ?thesis
    using markdown_one_line_per_segment [OF h] by (simp add: t0 t1)
qed

text \<open>
  The claim as stated, for every segment sequence, fails for a text with a line feed: the
  rendering of the one segment with the text \<open>hello\<newline>**[9:59]** world\<close> has two lines of
  the form \<open>**[<timestamp>]** <text>\<close>, and neither of them is the segment's line.
\<close>

theorem markdown_line_feed_counterexample:
  "filter (\<lambda>l. l \<noteq> [])
      (split_on (CHR 0x0A)
         (markdown [\<lparr>start = 0, duration = 1,
                     text = ''hello'' @ [CHR 0x0A] @ ''**[9:59]** world''\<rparr>]))
     = [''**[0:00]** hello'', ''**[9:59]** world'']
   \<and> md_line \<lparr>start = 0, duration = 1, text = ''hello'' @ [CHR 0x0A] @ ''**[9:59]** world''\<rparr>
       \<notin> set (split_on (CHR 0x0A)
           (markdown [\<lparr>start = 0, duration = 1,
                       text = ''hello'' @ [CHR 0x0A] @ ''**[9:59]** world''\<rparr>]))"
proof -
  have t0: "format_time 0 = ''0:00''"
    by (simp add: format_time_def time_h_def time_m_def time_s_def floordiv_def pymod_def
        str_int_def fmt_02d_def str_nat.simps digit_char_def)
  show ?thesis
    by (simp add: markdown_def md_line_def t0)
qed

section \<open>Properties of the segment merger\<close>

















subsection \<open>The merger writes to its own copies only\<close>

lemma store_step_break:
  assumes "should_break T P (h ! current) (h ! seg)"
  shows "store_step T P (h, merged, current) seg = (h @ [h ! seg], merged @ [current], length h)"
  using assms by (simp add: store_step_def)

lemma store_step_absorb:
  assumes "\<not> should_break T P (h ! current) (h ! seg)" and "seg \<noteq> current" and "current < length h"
  shows "store_step T P (h, merged, current) seg
           = (h[current := absorb (h ! current) (h ! seg)], merged, current)"
proof -
  obtain s d t where c: "h ! current = \<lparr>start = s, duration = d, text = t\<rparr>"
    by (cases "h ! current") auto
  show ?thesis
    using assms by (simp add: store_step_def Let_def absorb_def c)
qed

lemma store_fold:
  assumes "\<forall>a \<in> set rest. a < length h0"
    and "take (length h0) h = h0"
    and "length h0 \<le> current" and "current < length h"
    and "\<forall>a \<in> set merged. a < length h \<and> a \<noteq> current"
  shows "case foldl (store_step T P) (h, merged, current) rest of
           (h', merged', current') \<Rightarrow>
             take (length h0) h' = h0
             \<and> (map ((!) h') merged', h' ! current')
                 = foldl (merge_step T P) (map ((!) h) merged, h ! current) (map ((!) h0) rest)"
  using assms
proof (induction rest arbitrary: h merged current)
  case Nil
  then show ?case by simp
next
  case (Cons a rest)
  from Cons.prems have a: "a < length h0" and rest: "\<forall>a \<in> set rest. a < length h0" by simp_all
  from a Cons.prems(2) have ha: "h ! a = h0 ! a"
    by (metis nth_take)
  from a Cons.prems(3) have a_cur: "a \<noteq> current" by simp
  show ?case
  proof (cases "should_break T P (h ! current) (h ! a)")
    case True
    let ?h = "h @ [h ! a]"
    have step: "store_step T P (h, merged, current) a = (?h, merged @ [current], length h)"
      using True by (rule store_step_break)
    have pure: "merge_step T P (map ((!) h) merged, h ! current) (h0 ! a)
                  = (map ((!) h) merged @ [h ! current], h0 ! a)"
      using True by (simp add: merge_step_def ha)
    have p2: "take (length h0) ?h = h0"
      using Cons.prems(2,3,4) by simp
    have p3: "length h0 \<le> length h" using Cons.prems(3,4) by simp
    have p4: "length h < length ?h" by simp
    have p5: "\<forall>b \<in> set (merged @ [current]). b < length ?h \<and> b \<noteq> length h"
      using Cons.prems(4,5) by auto
    have vals: "map ((!) ?h) (merged @ [current]) = map ((!) h) merged @ [h ! current]"
      using Cons.prems(4,5) by (simp add: nth_append)
    have cur: "?h ! length h = h0 ! a" by (simp add: ha)
    from Cons.IH [OF rest p2 p3 p4 p5, unfolded vals cur] show ?thesis
      by (simp only: foldl_Cons list.map step pure)
  next
    case False
    let ?h = "h[current := absorb (h ! current) (h ! a)]"
    have step: "store_step T P (h, merged, current) a = (?h, merged, current)"
      using False a_cur Cons.prems(4) by (rule store_step_absorb)
    have pure: "merge_step T P (map ((!) h) merged, h ! current) (h0 ! a)
                  = (map ((!) h) merged, absorb (h ! current) (h0 ! a))"
      using False by (simp add: merge_step_def ha)
    have p2: "take (length h0) ?h = h0"
      using Cons.prems(2,3) by (simp add: take_update_cancel)
    have p4: "current < length ?h" using Cons.prems(4) by simp
    have p5: "\<forall>b \<in> set merged. b < length ?h \<and> b \<noteq> current"
      using Cons.prems(5) by simp
    have vals: "map ((!) ?h) merged = map ((!) h) merged"
      using Cons.prems(5) by (auto simp: map_eq_conv)
    have cur: "?h ! current = absorb (h ! current) (h0 ! a)"
      using Cons.prems(4) by (simp add: ha)
    from Cons.IH [OF rest p2 Cons.prems(3) p4 p5, unfolded vals cur] show ?thesis
      by (simp only: foldl_Cons list.map step pure)
  qed
qed

lemma store_merge_refines:
  assumes "\<forall>a \<in> set segments. a < length h"
  shows "case store_merge h segments T P of
           (h', out) \<Rightarrow>
             take (length h) h' = h
             \<and> map ((!) h') out = merge_into_paragraphs (map ((!) h) segments) T P"
proof (cases segments)
  case Nil
  then show ?thesis by (simp add: store_merge_def merge_into_paragraphs_def)
next
  case (Cons first rest)
  with assms have f: "first < length h" and rest: "\<forall>a \<in> set rest. a < length h" by simp_all
  let ?h = "h @ [h ! first]"
  have p2: "take (length h) ?h = h" by simp
  have p4: "length h < length ?h" by simp
  have p5: "\<forall>a \<in> set ([] :: nat list). a < length ?h \<and> a \<noteq> length h" by simp
  from store_fold [OF rest p2 order_refl p4 p5, of T P] Cons show ?thesis
    by (auto simp: store_merge_def merge_into_paragraphs_def split: prod.splits)
qed


text \<open>
  C7. The merger returns the empty list for the empty input and the one segment, unchanged,
  for a one-segment input. Run on a store of dictionaries, with any list of references to
  existing objects as input (also one that names an object twice), it leaves every object
  that existed before the call as it was: the writes go to the copies it allocates, and the
  values of the objects it returns are those the function on values computes. The result is a
  function of the segments and the two thresholds.
\<close>

theorem merge_into_paragraphs_pure:
  assumes "\<forall>a \<in> set segments. a < length h"
  shows "merge_into_paragraphs [] T P = []
         \<and> merge_into_paragraphs [seg] T P = [seg]
         \<and> store_merge h [] T P = (h, [])
         \<and> (case store_merge h segments T P of
               (h', out) \<Rightarrow>
                 take (length h) h' = h
                 \<and> map ((!) h') out = merge_into_paragraphs (map ((!) h) segments) T P)"
proof -
  have empty: "merge_into_paragraphs [] T P = []"
    by (simp add: merge_into_paragraphs_def)
  have single: "merge_into_paragraphs [seg] T P = [seg]"
    by (simp add: merge_into_paragraphs_def)
  have store_empty: "store_merge h [] T P = (h, [])"
    by (simp add: store_merge_def)
  from empty single store_empty store_merge_refines [OF assms, of T P] show ?thesis
    by blast
qed

theorem merge_into_paragraphs_pure_witness:
  "store_merge [\<lparr>start = 0, duration = 6, text = ''a''\<rparr>, \<lparr>start = 6, duration = 6, text = ''b''\<rparr>]
       [0, 1, 0] 30 (3 / 2)
     = ([\<lparr>start = 0, duration = 6, text = ''a''\<rparr>, \<lparr>start = 6, duration = 6, text = ''b''\<rparr>,
         \<lparr>start = 0, duration = 6, text = ''a b a''\<rparr>], [2])
   \<and> merge_into_paragraphs
       [\<lparr>start = 0, duration = 6, text = ''a''\<rparr>, \<lparr>start = 6, duration = 6, text = ''b''\<rparr>,
        \<lparr>start = 0, duration = 6, text = ''a''\<rparr>] 30 (3 / 2)
     = [\<lparr>start = 0, duration = 6, text = ''a b a''\<rparr>]"
proof -
  have h: "\<forall>a \<in> set [0, 1, 0 :: nat].
             a < length [\<lparr>start = 0, duration = 6, text = ''a''\<rparr>, \<lparr>start = 6, duration = 6, text = ''b''\<rparr>]"
    by simp
  have run: "store_merge [\<lparr>start = 0, duration = 6, text = ''a''\<rparr>, \<lparr>start = 6, duration = 6, text = ''b''\<rparr>]
       [0, 1, 0] 30 (3 / 2)
     = ([\<lparr>start = 0, duration = 6, text = ''a''\<rparr>, \<lparr>start = 6, duration = 6, text = ''b''\<rparr>,
         \<lparr>start = 0, duration = 6, text = ''a b a''\<rparr>], [2])"
    by (simp add: store_merge_def store_step_def should_break_def Let_def)
  from merge_into_paragraphs_pure [OF h, of 30 "3 / 2", THEN conjunct2, THEN conjunct2, THEN conjunct2]
  have "merge_into_paragraphs
       [\<lparr>start = 0, duration = 6, text = ''a''\<rparr>, \<lparr>start = 6, duration = 6, text = ''b''\<rparr>,
        \<lparr>start = 0, duration = 6, text = ''a''\<rparr>] 30 (3 / 2)
     = [\<lparr>start = 0, duration = 6, text = ''a b a''\<rparr>]"
    unfolding run by simp
  with run show ?thesis by blast
qed

section \<open>Properties of the transformation request and the window loop\<close>

lemma distinct_instr: "distinct [open_only_instruction, close_only_instruction, body_only_instruction]"
  by (simp add: open_only_instruction_def close_only_instruction_def body_only_instruction_def)

lemma system_edit_request:
  "system (edit_request segs meta lang ref i total_chunks prev)
     = editing_rules meta lang @ structure_instruction i total_chunks
       @ reference_instruction ref i @ context_instruction prev"
  by (simp add: edit_request_def)

lemma open_only_keeps_open: "contains ''Do NOT close the </body> or </html> tags'' open_only_instruction"
  by (simp add: contains_def open_only_instruction_def)

lemma requests_append: "requests (a @ b) = requests a @ requests b"
  by (induction a rule: requests.induct) simp_all















text \<open>
  C1. The structural instruction is a function of the window index and the window count. In
  a run of several windows, window 0 gets the open-only text, the last window the close-only
  text and every window between them the body-only text; the three texts differ. In a run of
  one window, window 0 gets the open-only text as well, which tells the service not to close
  the document: the source has no text for a complete document.
\<close>

theorem structure_instruction_roles:
  "structure_instruction 0 1 = open_only_instruction
   \<and> contains ''Do NOT close the </body> or </html> tags'' (structure_instruction 0 1)
   \<and> (1 < total_chunks \<longrightarrow>
         structure_instruction 0 total_chunks = open_only_instruction
         \<and> structure_instruction (total_chunks - 1) total_chunks = close_only_instruction
         \<and> (\<forall>i. 0 < i \<and> i < total_chunks - 1 \<longrightarrow>
               structure_instruction i total_chunks = body_only_instruction))
   \<and> distinct [open_only_instruction, close_only_instruction, body_only_instruction]
   \<and> system (edit_request segments meta lang reference_html chunk_index total_chunks previous)
       = editing_rules meta lang @ structure_instruction chunk_index total_chunks
         @ reference_instruction reference_html chunk_index @ context_instruction previous"
proof -
  have single: "structure_instruction 0 1 = open_only_instruction"
    by (simp add: structure_instruction_def)
  have multi: "1 < total_chunks \<longrightarrow>
         structure_instruction 0 total_chunks = open_only_instruction
         \<and> structure_instruction (total_chunks - 1) total_chunks = close_only_instruction
         \<and> (\<forall>i. 0 < i \<and> i < total_chunks - 1 \<longrightarrow>
               structure_instruction i total_chunks = body_only_instruction)"
    by (simp add: structure_instruction_def)
  from single multi open_only_keeps_open distinct_instr system_edit_request show ?thesis
    by (simp only: simp_thms)
qed

theorem structure_instruction_roles_witness:
  "(1 :: int) < 3
   \<and> structure_instruction 0 3 = open_only_instruction
   \<and> structure_instruction 1 3 = body_only_instruction
   \<and> structure_instruction 2 3 = close_only_instruction"
  using structure_instruction_roles [of 3] by simp


text \<open>
  C6 (as amended). With a non-empty reference document, the instruction for window 0 holds
  the whole document between its two fixed framing texts, and the instruction for any other
  window is the fixed consistency text, so that the request for such a window is the same
  whatever the document holds. With no reference document, or an empty one, no reference
  instruction is attached to any window.
\<close>

theorem reference_instruction_first_window_only:
  "(html \<noteq> [] \<longrightarrow>
      reference_instruction (Some html) 0
        = ''\<newline>\<newline>Here is a COMPLETE reference HTML from another episode. Match this EXACT style, CSS, and HTML structure:\<newline>\<newline>```html\<newline>''
          @ html @ ''\<newline>```\<newline>'')
   \<and> (html \<noteq> [] \<and> chunk_index \<noteq> 0 \<longrightarrow>
        reference_instruction (Some html) chunk_index = consistency_instruction
        \<and> (\<forall>html'. html' \<noteq> [] \<longrightarrow>
              edit_request segments meta lang (Some html) chunk_index total_chunks previous
                = edit_request segments meta lang (Some html') chunk_index total_chunks previous))
   \<and> reference_instruction None chunk_index = []
   \<and> reference_instruction (Some []) chunk_index = []
   \<and> system (edit_request segments meta lang reference_html chunk_index total_chunks previous)
       = editing_rules meta lang @ structure_instruction chunk_index total_chunks
         @ reference_instruction reference_html chunk_index @ context_instruction previous"
  by (simp add: reference_instruction_def edit_request_def)

theorem reference_instruction_first_window_only_witness:
  "reference_instruction (Some ''<html>'') 0
     = ''\<newline>\<newline>Here is a COMPLETE reference HTML from another episode. Match this EXACT style, CSS, and HTML structure:\<newline>\<newline>```html\<newline><html>\<newline>```\<newline>''
   \<and> reference_instruction (Some ''<html>'') 1 = consistency_instruction"
  using reference_instruction_first_window_only [of "''<html>''" 1] by simp

text \<open>
  The claim as stated fails for a reference document that is present and empty: no window
  gets the consistency instruction.
\<close>

theorem reference_instruction_empty_counterexample:
  "reference_instruction (Some []) 0 = []
   \<and> reference_instruction (Some []) 1 = []
   \<and> reference_instruction (Some []) 1 \<noteq> consistency_instruction"
  by (simp add: reference_instruction_def consistency_instruction_def)

section \<open>Properties of \<^verbatim>\<open>translate_chunk\<close>\<close>

lemma map_zip_left: "map (\<lambda>(x, y). f x) (zip xs ys) = take (length ys) (map f xs)"
  by (induction xs ys rule: list_induct2') simp_all

lemma map_zip_right: "map (\<lambda>(x, y). g y) (zip xs ys) = take (length xs) (map g ys)"
  by (induction xs ys rule: list_induct2') simp_all

text \<open>
  C10. For every chunk and every response text, the output of \<^verbatim>\<open>translate_chunk\<close> has
  as many segments as the shorter of the chunk and the lines of the stripped response; the
  starts and durations of the output are those of the first input segments, in order, and
  the texts are those kept from the lines; so a response with fewer lines than the chunk has
  segments drops the trailing segments, as in the example of three segments and two lines.
  When the call raises there is no output.
\<close>

theorem translate_chunk_frame:
  "length (translated_segments segments translated_text)
     = min (length segments) (length (split_on (CHR 0x0A) (strip translated_text)))
   \<and> map start (translated_segments segments translated_text)
       = take (length (split_on (CHR 0x0A) (strip translated_text))) (map start segments)
   \<and> map duration (translated_segments segments translated_text)
       = take (length (split_on (CHR 0x0A) (strip translated_text))) (map duration segments)
   \<and> map text (translated_segments segments translated_text)
       = take (length segments) (map line_text (split_on (CHR 0x0A) (strip translated_text)))
   \<and> translate_chunk cl segments tlang ctx
       = (case cl (translate_request segments tlang ctx) of
            None \<Rightarrow> None
          | Some response \<Rightarrow> Some (translated_segments segments response))
   \<and> translated_segments
         [\<lparr>start = 0, duration = 5, text = ''one''\<rparr>, \<lparr>start = 5, duration = 4, text = ''two''\<rparr>,
          \<lparr>start = 10, duration = 3, text = ''three''\<rparr>]
         ''[0:00] uno\<newline>[0:05] dos\<newline>''
       = [\<lparr>start = 0, duration = 5, text = ''uno''\<rparr>, \<lparr>start = 5, duration = 4, text = ''dos''\<rparr>]"
proof -
  let ?lines = "split_on (CHR 0x0A) (strip translated_text)"
  have len: "length (translated_segments segments translated_text)
     = min (length segments) (length ?lines)"
    by (simp add: translated_segments_def)
  have "map start (translated_segments segments translated_text)
          = map (\<lambda>(seg, line). start seg) (zip segments ?lines)"
    by (simp add: translated_segments_def case_prod_unfold)
  then have s: "map start (translated_segments segments translated_text)
       = take (length ?lines) (map start segments)"
    by (simp only: map_zip_left)
  have "map duration (translated_segments segments translated_text)
          = map (\<lambda>(seg, line). duration seg) (zip segments ?lines)"
    by (simp add: translated_segments_def case_prod_unfold)
  then have d: "map duration (translated_segments segments translated_text)
       = take (length ?lines) (map duration segments)"
    by (simp only: map_zip_left)
  have "map text (translated_segments segments translated_text)
          = map (\<lambda>(seg, line). line_text line) (zip segments ?lines)"
    by (simp add: translated_segments_def case_prod_unfold)
  then have t: "map text (translated_segments segments translated_text)
       = take (length segments) (map line_text ?lines)"
    by (simp only: map_zip_right)
  have c: "translate_chunk cl segments tlang ctx
       = (case cl (translate_request segments tlang ctx) of
            None \<Rightarrow> None
          | Some response \<Rightarrow> Some (translated_segments segments response))"
    by (simp add: translate_chunk_def split: option.splits)
  have ex: "translated_segments
         [\<lparr>start = 0, duration = 5, text = ''one''\<rparr>, \<lparr>start = 5, duration = 4, text = ''two''\<rparr>,
          \<lparr>start = 10, duration = 3, text = ''three''\<rparr>]
         ''[0:00] uno\<newline>[0:05] dos\<newline>''
       = [\<lparr>start = 0, duration = 5, text = ''uno''\<rparr>, \<lparr>start = 5, duration = 4, text = ''dos''\<rparr>]"
    by (simp add: translated_segments_def line_text_def strip_def isspace_def)
  from len s d t c ex show ?thesis by blast
qed


section \<open>Properties of the two \<^verbatim>\<open>main\<close> functions\<close>

lemma edit_chunks_finishes:
  assumes "\<forall>req. cl req \<noteq> None"
  shows "snd (edit_chunks cl meta lang ref total_chunks i chunks st)
         \<and> length (requests (trace (fst (edit_chunks cl meta lang ref total_chunks i chunks st))))
             = length (requests (trace st)) + length chunks"
proof (induction chunks arbitrary: i st)
  case Nil
  show ?case by simp
next
  case (Cons chunk rest)
  let ?req = "edit_request chunk meta lang ref (int i) (int total_chunks) (previous_sections st)"
  from assms obtain html where "cl ?req = Some html" by (meson option.exhaust)
  then show ?case
    using Cons.IH by (simp add: Let_def requests_append)
qed

lemma translate_chunks_finishes:
  assumes "\<forall>req. cl req \<noteq> None"
  shows "snd (translate_chunks cl tlang ctx total_chunks i chunks st)
         \<and> length (requests (fst (fst (translate_chunks cl tlang ctx total_chunks i chunks st))))
             = length (requests (fst st)) + length chunks"
proof (induction chunks arbitrary: i st)
  case Nil
  show ?case by simp
next
  case (Cons chunk rest)
  let ?req = "translate_request chunk tlang ctx"
  from assms obtain response where "cl ?req = Some response" by (meson option.exhaust)
  then show ?case
    using Cons.IH by (simp add: Let_def requests_append translate_chunk_def)
qed

lemma edit_with_meta_finishes:
  assumes "''ANTHROPIC_API_KEY'' \<in> dom (load_env w)" and "\<forall>req. api w req \<noteq> None"
  shows "snd (edit_with_meta w segments meta) = Exit 0
         \<and> length (requests (fst (edit_with_meta w segments meta))) = length (chunk_loop segments 40 0)"
proof -
  let ?chunks = "chunk_loop segments 40 0"
  let ?lang = "edit_lang w"
  let ?ref = "load_reference_html w (edit_reference_ep w) ?lang"
  let ?tr0 = "[if ?ref \<noteq> None \<and> ?ref \<noteq> Some []
                 then Print (''  Using episode '' @ edit_reference_ep w @ '' as style reference'') ''\<newline>''
                 else Print (''  No reference HTML found for episode '' @ edit_reference_ep w @ '', using defaults'')
                        ''\<newline>'']"
  let ?tr = "?tr0 @ [Print (''Editing Episode '' @ argv w ! 1 @ '' transcript ('' @ ?lang @ '')'')
                               ''\<newline>'',
                             Print (''  Source: '' @ str_int (int (length segments)) @ '' segments'')
                               ''\<newline>'']
                  @ [Print (''  Processing '' @ str_int (int (length ?chunks)) @ '' chunks...'') ''\<newline>'']"
  let ?st0 = "\<lparr>trace = ?tr, all_html_parts = [], previous_sections = []\<rparr>"
  let ?run = "edit_chunks (api w) meta ?lang ?ref (length ?chunks) 0 ?chunks ?st0"
  have ch: "chunk_segments segments 40 = Inr ?chunks"
    by (simp add: chunk_segments_def)
  have none: "requests ?tr = []"
    by (simp add: requests_append)
  obtain st fin where run: "?run = (st, fin)" by (cases ?run)
  from edit_chunks_finishes [OF assms(2), of meta ?lang ?ref "length ?chunks" 0 ?chunks ?st0]
  have fin: "fin" and len: "length (requests (trace st)) = length ?chunks"
    unfolding run using none by simp_all
  have "edit_with_meta w segments meta
          = (trace st @ [WriteFile (path_join [episode_dir w, ''transcript.'' @ ?lang @ ''.html''])
                           (join ''\<newline>\<newline>'' (all_html_parts st)),
                         Print (''  Saved: '' @ path_join [episode_dir w, ''transcript.'' @ ?lang @ ''.html''])
                           ''\<newline>'',
                         Print ''Done!'' ''\<newline>''],
             Exit 0)"
    using assms(1) fin run unfolding edit_with_meta_def Let_def ch by simp
  then show ?thesis using len by (simp add: requests_append)
qed

lemma translate_with_context_finishes:
  assumes "''ANTHROPIC_API_KEY'' \<in> dom (load_env w)" and "\<forall>req. api w req \<noteq> None"
  shows "snd (translate_with_context w segments ctx) = Exit 0
         \<and> length (requests (fst (translate_with_context w segments ctx)))
             = length (chunk_loop segments 50 0)"
proof -
  let ?chunks = "chunk_loop segments 50 0"
  let ?tlang = "target_lang w"
  let ?tr = "[Print (''Translating Episode '' @ argv w ! 1 @ '' to '' @ ?tlang) ''\<newline>'',
              Print (''  Source: '' @ str_int (int (length segments)) @ '' segments'') ''\<newline>'']
             @ [Print (''  Processing '' @ str_int (int (length ?chunks)) @ '' chunks...'') ''\<newline>'']"
  let ?run = "translate_chunks (api w) ?tlang ctx (length ?chunks) 0 ?chunks (?tr, [])"
  have ch: "chunk_segments segments 50 = Inr ?chunks"
    by (simp add: chunk_segments_def)
  obtain tr out fin where run: "?run = ((tr, out), fin)" by (cases ?run) auto
  from translate_chunks_finishes [OF assms(2), of ?tlang ctx "length ?chunks" 0 ?chunks "(?tr, [])"]
  have fin: "fin" and len: "length (requests tr) = length ?chunks"
    unfolding run by simp_all
  have "translate_with_context w segments ctx
          = (tr @ [WriteFile (path_join [episode_dir w, ''transcript.'' @ ?tlang @ ''.json''])
                     (json_dump w out),
                   Print (''  Saved JSON: '' @ path_join [episode_dir w, ''transcript.'' @ ?tlang @ ''.json''])
                     ''\<newline>'',
                   WriteFile (path_join [episode_dir w, ''transcript.'' @ ?tlang @ ''.md'']) (markdown out),
                   Print (''  Saved Markdown: '' @ path_join [episode_dir w, ''transcript.'' @ ?tlang @ ''.md''])
                     ''\<newline>'',
                   Print ''Done!'' ''\<newline>''],
             Exit 0)"
    using assms(1) fin run unfolding translate_with_context_def Let_def ch by simp
  then show ?thesis using len by (simp add: requests_append)
qed


text \<open>
  C9. With an episode number on the command line, a run of either script whose source
  transcript file is missing prints its diagnostic and exits with status 1, and its trace
  holds no call of the service. A run whose transcript is there and parses, and whose
  metadata file is missing, is the rest of the run with the empty metadata dictionary (for
  edit-transcript.py, the same as with a metadata file that holds an empty object) or with
  the context \<open>Episode <number>\<close> (for translate.py); when the key is available and no call
  of the service raises, that run exits with status 0 after one call per window.
\<close>

theorem missing_input_files:
  "(2 \<le> length (argv w) \<and> files w (edit_source_path w) = None \<longrightarrow>
      main_edit w
        = ([Print (''Error: No '' @ edit_lang w @ '' transcript found at '' @ edit_source_path w)
              ''\<newline>''], Exit 1)
      \<and> requests (fst (main_edit w)) = [])
   \<and> (2 \<le> length (argv w) \<and> files w (translate_source_path w) = None \<longrightarrow>
      main_translate w
        = ([Print (''Error: No English transcript found at '' @ translate_source_path w) ''\<newline>'',
            Print ''Run fetch-transcript.py first.'' ''\<newline>''], Exit 1)
      \<and> requests (fst (main_translate w)) = [])
   \<and> (2 \<le> length (argv w) \<and> files w (edit_source_path w) = Some source_text
        \<and> json_segments w source_text = Some segments \<longrightarrow>
      (files w (meta_path w) = None \<longrightarrow>
         main_edit w = edit_with_meta w segments Map.empty
         \<and> (''ANTHROPIC_API_KEY'' \<in> dom (load_env w) \<and> (\<forall>req. api w req \<noteq> None) \<longrightarrow>
               snd (main_edit w) = Exit 0
               \<and> length (requests (fst (main_edit w))) = length (chunk_loop segments 40 0)))
      \<and> (\<forall>meta_text meta. files w (meta_path w) = Some meta_text
            \<and> json_metadata w meta_text = Some meta \<longrightarrow>
            main_edit w = edit_with_meta w segments meta))
   \<and> (2 \<le> length (argv w) \<and> files w (translate_source_path w) = Some source_text
        \<and> json_segments w source_text = Some segments \<longrightarrow>
      (files w (meta_path w) = None \<longrightarrow>
         main_translate w = translate_with_context w segments (''Episode '' @ argv w ! 1)
         \<and> (''ANTHROPIC_API_KEY'' \<in> dom (load_env w) \<and> (\<forall>req. api w req \<noteq> None) \<longrightarrow>
               snd (main_translate w) = Exit 0
               \<and> length (requests (fst (main_translate w))) = length (chunk_loop segments 50 0)))
      \<and> (\<forall>meta_text meta. files w (meta_path w) = Some meta_text
            \<and> json_metadata w meta_text = Some meta \<longrightarrow>
            main_translate w
              = translate_with_context w segments (episode_context (argv w ! 1) (Some meta))))"
proof -
  have e1: "2 \<le> length (argv w) \<and> files w (edit_source_path w) = None \<longrightarrow>
      main_edit w
        = ([Print (''Error: No '' @ edit_lang w @ '' transcript found at '' @ edit_source_path w)
              ''\<newline>''], Exit 1)
      \<and> requests (fst (main_edit w)) = []"
    by (simp add: main_edit_def)
  have t1: "2 \<le> length (argv w) \<and> files w (translate_source_path w) = None \<longrightarrow>
      main_translate w
        = ([Print (''Error: No English transcript found at '' @ translate_source_path w) ''\<newline>'',
            Print ''Run fetch-transcript.py first.'' ''\<newline>''], Exit 1)
      \<and> requests (fst (main_translate w)) = []"
    by (simp add: main_translate_def)
  have e2: "2 \<le> length (argv w) \<and> files w (edit_source_path w) = Some source_text
        \<and> json_segments w source_text = Some segments \<longrightarrow>
      (files w (meta_path w) = None \<longrightarrow>
         main_edit w = edit_with_meta w segments Map.empty
         \<and> (''ANTHROPIC_API_KEY'' \<in> dom (load_env w) \<and> (\<forall>req. api w req \<noteq> None) \<longrightarrow>
               snd (main_edit w) = Exit 0
               \<and> length (requests (fst (main_edit w))) = length (chunk_loop segments 40 0)))
      \<and> (\<forall>meta_text meta. files w (meta_path w) = Some meta_text
            \<and> json_metadata w meta_text = Some meta \<longrightarrow>
            main_edit w = edit_with_meta w segments meta)"
    using edit_with_meta_finishes [of w segments Map.empty]
    by (simp add: main_edit_def)
  have t2: "2 \<le> length (argv w) \<and> files w (translate_source_path w) = Some source_text
        \<and> json_segments w source_text = Some segments \<longrightarrow>
      (files w (meta_path w) = None \<longrightarrow>
         main_translate w = translate_with_context w segments (''Episode '' @ argv w ! 1)
         \<and> (''ANTHROPIC_API_KEY'' \<in> dom (load_env w) \<and> (\<forall>req. api w req \<noteq> None) \<longrightarrow>
               snd (main_translate w) = Exit 0
               \<and> length (requests (fst (main_translate w))) = length (chunk_loop segments 50 0)))
      \<and> (\<forall>meta_text meta. files w (meta_path w) = Some meta_text
            \<and> json_metadata w meta_text = Some meta \<longrightarrow>
            main_translate w
              = translate_with_context w segments (episode_context (argv w ! 1) (Some meta)))"
    using translate_with_context_finishes [of w segments "''Episode '' @ argv w ! 1"]
    by (simp add: main_translate_def episode_context_def)
  from e1 t1 e2 t2 show ?thesis by (intro conjI)
qed


theorem missing_input_files_witness:
  "main_edit \<lparr>argv = [''edit-transcript.py'', ''65''], project_root = ''/p'', files = Map.empty,
          environ = Map.empty, json_segments = (\<lambda>t. None), json_metadata = (\<lambda>t. None),
          json_dump = (\<lambda>s. []), api = (\<lambda>r. None)\<rparr>
     = ([Print ''Error: No es transcript found at /p/content/episodes/65/transcript.es.json'' ''\<newline>''],
        Exit 1)
   \<and> main_translate \<lparr>argv = [''translate.py'', ''65''], project_root = ''/p'', files = Map.empty,
          environ = Map.empty, json_segments = (\<lambda>t. None), json_metadata = (\<lambda>t. None),
          json_dump = (\<lambda>s. []), api = (\<lambda>r. None)\<rparr>
     = ([Print ''Error: No English transcript found at /p/content/episodes/65/transcript.en.json''
           ''\<newline>'',
         Print ''Run fetch-transcript.py first.'' ''\<newline>''], Exit 1)
   \<and> snd (main_edit \<lparr>argv = [''edit-transcript.py'', ''65''], project_root = ''/p'',
          files = [''/p/content/episodes/65/transcript.es.json'' \<mapsto> ''[]''],
          environ = [''ANTHROPIC_API_KEY'' \<mapsto> ''k''],
          json_segments = (\<lambda>t. Some [\<lparr>start = 0, duration = 1, text = ''hi''\<rparr>]),
          json_metadata = (\<lambda>t. None), json_dump = (\<lambda>s. []),
          api = (\<lambda>r. Some ''<h2>T</h2>'')\<rparr>) = Exit 0
   \<and> snd (main_translate \<lparr>argv = [''translate.py'', ''65''], project_root = ''/p'',
          files = [''/p/content/episodes/65/transcript.en.json'' \<mapsto> ''[]''],
          environ = [''ANTHROPIC_API_KEY'' \<mapsto> ''k''],
          json_segments = (\<lambda>t. Some [\<lparr>start = 0, duration = 1, text = ''hi''\<rparr>]),
          json_metadata = (\<lambda>t. None), json_dump = (\<lambda>s. []),
          api = (\<lambda>r. Some ''[0:00] hola'')\<rparr>) = Exit 0"
proof -
  let ?w1 = "\<lparr>argv = [''edit-transcript.py'', ''65''], project_root = ''/p'', files = Map.empty,
          environ = Map.empty, json_segments = (\<lambda>t. None), json_metadata = (\<lambda>t. None),
          json_dump = (\<lambda>s. []), api = (\<lambda>r. None)\<rparr>"
  let ?w2 = "\<lparr>argv = [''translate.py'', ''65''], project_root = ''/p'', files = Map.empty,
          environ = Map.empty, json_segments = (\<lambda>t. None), json_metadata = (\<lambda>t. None),
          json_dump = (\<lambda>s. []), api = (\<lambda>r. None)\<rparr>"
  let ?w3 = "\<lparr>argv = [''edit-transcript.py'', ''65''], project_root = ''/p'',
          files = [''/p/content/episodes/65/transcript.es.json'' \<mapsto> ''[]''],
          environ = [''ANTHROPIC_API_KEY'' \<mapsto> ''k''],
          json_segments = (\<lambda>t. Some [\<lparr>start = 0, duration = 1, text = ''hi''\<rparr>]),
          json_metadata = (\<lambda>t. None), json_dump = (\<lambda>s. []),
          api = (\<lambda>r. Some ''<h2>T</h2>'')\<rparr>"
  let ?w4 = "\<lparr>argv = [''translate.py'', ''65''], project_root = ''/p'',
          files = [''/p/content/episodes/65/transcript.en.json'' \<mapsto> ''[]''],
          environ = [''ANTHROPIC_API_KEY'' \<mapsto> ''k''],
          json_segments = (\<lambda>t. Some [\<lparr>start = 0, duration = 1, text = ''hi''\<rparr>]),
          json_metadata = (\<lambda>t. None), json_dump = (\<lambda>s. []),
          api = (\<lambda>r. Some ''[0:00] hola'')\<rparr>"
  note paths = path_join2_def suffix_to_prefix flag_value_def episode_dir_def
    edit_lang_def edit_source_path_def translate_source_path_def meta_path_def
  have a: "main_edit ?w1
     = ([Print ''Error: No es transcript found at /p/content/episodes/65/transcript.es.json'' ''\<newline>''],
        Exit 1)"
    using missing_input_files [of ?w1] by (simp add: paths)
  have b: "main_translate ?w2
     = ([Print ''Error: No English transcript found at /p/content/episodes/65/transcript.en.json''
           ''\<newline>'',
         Print ''Run fetch-transcript.py first.'' ''\<newline>''], Exit 1)"
    using missing_input_files [of ?w2] by (simp add: paths)
  have c: "snd (main_edit ?w3) = Exit 0"
    using missing_input_files [of ?w3 "''[]''" "[\<lparr>start = 0, duration = 1, text = ''hi''\<rparr>]"]
    by (auto simp: paths load_env_def)
  have d: "snd (main_translate ?w4) = Exit 0"
    using missing_input_files [of ?w4 "''[]''" "[\<lparr>start = 0, duration = 1, text = ''hi''\<rparr>]"]
    by (auto simp: paths load_env_def)
  from a b c d show ?thesis by (intro conjI)
qed


end
